theory Spec2Isabelle
  imports Main "HOL-Library.Word"
begin

section \<open>The chat completion stream use case of luanlsr/chatservice\<close>

text \<open>
  A shallow embedding of \<^verbatim>\<open>internal/usecase/chatcomplitionstream/completion.go\<close>.
  The use case looks a conversation up (or creates it), appends the user's message, asks
  the completion provider for a stream, forwards the growing answer to a channel and
  saves the conversation.

  Go's \<^verbatim>\<open>error\<close> values are only ever read through \<^verbatim>\<open>err.Error()\<close> and
  \<^verbatim>\<open>errors.Is(err, io.EOF)\<close>, so an error is modelled by its message, and a fallible
  call returns a sum with the message on the left. The numeric fields are copied and
  never computed with: a \<^verbatim>\<open>float32\<close> is its 32-bit pattern, an \<^verbatim>\<open>int\<close> a 64-bit word.
\<close>

type_synonym float32 = "32 word"
type_synonym go_int = "64 word"

subsection \<open>The domain entities\<close>

text \<open>
  Modelled from the spec: the types of package \<^verbatim>\<open>internal/domain/entity\<close>, which the use
  case imports and which is outside \<^verbatim>\<open>completion.go\<close>. The records hold the fields that
  \<^verbatim>\<open>completion.go\<close> reads or writes (\<^verbatim>\<open>FrequencyePenalty\<close> is the source's spelling) and,
  from the spec's data model, the model's maximum context size and the model a message
  was validated under.
\<close>

record Model =
  Name :: string
  MaxTokens :: go_int

record ChatConfig =
  Model :: Model
  Temperature :: float32
  TopP :: float32
  N :: go_int
  Stop :: "string list"
  MaxTokens :: go_int
  PresencePenalty :: float32
  FrequencyePenalty :: float32

record Message =
  Role :: string
  Content :: string
  Model :: Model

record Chat =
  ID :: string
  UserID :: string
  Config :: ChatConfig
  Messages :: "Message list"

text \<open>
  The functions of the entity package that the use case calls. Their bodies are not part
  of \<^verbatim>\<open>completion.go\<close>, so they are parameters of the model. \<^verbatim>\<open>AddMessage\<close> mutates
  the chat behind its pointer; here it returns the mutated chat.
\<close>

record entity =
  NewModel :: "string \<Rightarrow> go_int \<Rightarrow> Model"
  NewMessage :: "string \<Rightarrow> string \<Rightarrow> Model \<Rightarrow> string + Message"
  NewChat :: "string \<Rightarrow> Message \<Rightarrow> ChatConfig \<Rightarrow> string + Chat"
  AddMessage :: "Chat \<Rightarrow> Message \<Rightarrow> string + Chat"

subsection \<open>The data transfer objects (lines 14-38)\<close>

record ChatCompletionConfigInputDTO =
  Model :: string
  ModelMaxToken :: go_int
  Temperature :: float32
  TopP :: float32
  N :: go_int
  Stop :: "string list"
  MaxTokens :: go_int
  PresencePenalty :: float32
  FrequencyePenalty :: float32
  InitialSystemMessage :: string

record ChatCompletionInputDTO =
  ChatID :: string
  UserID :: string
  UserMessage :: string
  Config :: ChatCompletionConfigInputDTO

record ChatCompletionOutputDTO =
  ChatID :: string
  UserID :: string
  Content :: string

subsection \<open>The provider's types (package go-openai)\<close>

record ChatCompletionMessage =
  Role :: string
  Content :: string

record ChatCompletionRequest =
  Model :: string
  Messages :: "ChatCompletionMessage list"
  MaxTokens :: go_int
  Temperature :: float32
  TopP :: float32
  Stop :: "string list"
  PresencePenalty :: float32
  FrequencyPenalty :: float32
  Stream :: bool

record ChatCompletionStreamChoiceDelta =
  Content :: string

record ChatCompletionStreamChoice =
  Delta :: ChatCompletionStreamChoiceDelta

record ChatCompletionStreamResponse =
  Choices :: "ChatCompletionStreamChoice list"

text \<open>
  One call of \<^verbatim>\<open>resp.Recv()\<close> ends in one of three ways: an error for which
  \<^verbatim>\<open>errors.Is(err, io.EOF)\<close> holds, any other error, or a fragment.
\<close>

datatype recv_result =
    RecvEOF
  | RecvErr string
  | RecvOk ChatCompletionStreamResponse

subsection \<open>The collaborators (lines 40-52)\<close>

text \<open>
  The gateway is an interface and the client an external library: both are parameters.
  The stream object returned by the client carries a state of type \<open>'s\<close>; receiving
  from it gives a result and the next state.
\<close>

record ChatGateway =
  FindChatByID :: "string \<Rightarrow> string + Chat"
  CreateChat :: "Chat \<Rightarrow> string option"
  SaveChat :: "Chat \<Rightarrow> string option"

record 's OpenAiClient =
  CreateChatCompletionStream :: "ChatCompletionRequest \<Rightarrow> string + 's"
  Recv :: "'s \<Rightarrow> recv_result \<times> 's"

record 's ChatCompletionUseCase =
  ChatGateway :: ChatGateway
  OpenAiClient :: "'s OpenAiClient"

subsection \<open>What an execution does to the outside\<close>

text \<open>
  The calls that \<^verbatim>\<open>Execute\<close> makes on the store, on the conversation, on the provider
  and on the channel \<^verbatim>\<open>uc.Stream\<close>, in the order it makes them. Each event carries the
  arguments of the call; \<open>EvRecv\<close> carries what the receive returned.
\<close>

datatype event =
    EvFindChatByID string
  | EvNewChat string Message ChatConfig
  | EvCreateChat Chat
  | EvAddMessage Chat Message
  | EvCreateChatCompletionStream ChatCompletionRequest
  | EvRecv recv_result
  | EvSend ChatCompletionOutputDTO
  | EvSaveChat Chat

text \<open>
  How a run of \<^verbatim>\<open>Execute\<close> ends: it returns a value, it returns an error, the Go
  runtime panics, or the drain loop is still receiving when the fuel of the model is
  used up.
\<close>

datatype outcome =
    Returned ChatCompletionOutputDTO
  | Failed string
  | Panicked
  | OutOfFuel

subsection \<open>createNewChat (lines 147-168)\<close>

definition createNewChat ::
  "entity \<Rightarrow> ChatCompletionInputDTO \<Rightarrow> (string + Chat) \<times> event list" where
  "createNewChat ent input =
     (let model = NewModel ent (ChatCompletionConfigInputDTO.Model (ChatCompletionInputDTO.Config input))
                    (ModelMaxToken (ChatCompletionInputDTO.Config input));
          chatConfig = \<lparr>
            ChatConfig.Model = model,
            ChatConfig.Temperature = ChatCompletionConfigInputDTO.Temperature (ChatCompletionInputDTO.Config input),
            ChatConfig.TopP = ChatCompletionConfigInputDTO.TopP (ChatCompletionInputDTO.Config input),
            ChatConfig.N = ChatCompletionConfigInputDTO.N (ChatCompletionInputDTO.Config input),
            ChatConfig.Stop = ChatCompletionConfigInputDTO.Stop (ChatCompletionInputDTO.Config input),
            ChatConfig.MaxTokens = ChatCompletionConfigInputDTO.MaxTokens (ChatCompletionInputDTO.Config input),
            ChatConfig.PresencePenalty = ChatCompletionConfigInputDTO.PresencePenalty (ChatCompletionInputDTO.Config input),
            ChatConfig.FrequencyePenalty = ChatCompletionConfigInputDTO.FrequencyePenalty (ChatCompletionInputDTO.Config input)\<rparr>
      in case NewMessage ent ''system'' (InitialSystemMessage (ChatCompletionInputDTO.Config input)) model of
           Inl err \<Rightarrow> (Inl (''error creating initial message: '' @ err), [])
         | Inr initialMessage \<Rightarrow>
             (case NewChat ent (ChatCompletionInputDTO.UserID input) initialMessage chatConfig of
                Inl err \<Rightarrow>
                  (Inl (''error creating new chat: '' @ err),
                   [EvNewChat (ChatCompletionInputDTO.UserID input) initialMessage chatConfig])
              | Inr chat \<Rightarrow>
                  (Inr chat, [EvNewChat (ChatCompletionInputDTO.UserID input) initialMessage chatConfig])))"

subsection \<open>Execute (lines 54-145)\<close>

text \<open>Lines 55-71: find the conversation, or create and store a new one.\<close>

definition resolveChat ::
  "entity \<Rightarrow> 's ChatCompletionUseCase \<Rightarrow> ChatCompletionInputDTO \<Rightarrow> (string + Chat) \<times> event list" where
  "resolveChat ent uc input =
     (case FindChatByID (ChatGateway uc) (ChatCompletionInputDTO.ChatID input) of
        Inr chat \<Rightarrow> (Inr chat, [EvFindChatByID (ChatCompletionInputDTO.ChatID input)])
      | Inl err \<Rightarrow>
          if err = ''chat not found'' then
            (case createNewChat ent input of
               (Inl err, evs) \<Rightarrow>
                 (Inl (''error creating new chat: '' @ err),
                  EvFindChatByID (ChatCompletionInputDTO.ChatID input) # evs)
             | (Inr chat, evs) \<Rightarrow>
                 (case CreateChat (ChatGateway uc) chat of
                    Some err \<Rightarrow>
                      (Inl (''error persisting new chat: '' @ err),
                       EvFindChatByID (ChatCompletionInputDTO.ChatID input) # evs @ [EvCreateChat chat])
                  | None \<Rightarrow>
                      (Inr chat,
                       EvFindChatByID (ChatCompletionInputDTO.ChatID input) # evs @ [EvCreateChat chat])))
          else
            (Inl (''error fetching existing chat: '' @ err),
             [EvFindChatByID (ChatCompletionInputDTO.ChatID input)]))"

text \<open>Lines 72-79: build the user's message and append it to the conversation.\<close>

definition appendUserMessage ::
  "entity \<Rightarrow> ChatCompletionInputDTO \<Rightarrow> Chat \<Rightarrow> (string + Chat) \<times> event list" where
  "appendUserMessage ent input chat =
     (case NewMessage ent ''user'' (UserMessage input) (ChatConfig.Model (Chat.Config chat)) of
        Inl err \<Rightarrow> (Inl (''error creating user message: '' @ err), [])
      | Inr userMessage \<Rightarrow>
          (case AddMessage ent chat userMessage of
             Inl err \<Rightarrow> (Inl (''error adding new message: '' @ err), [EvAddMessage chat userMessage])
           | Inr chat' \<Rightarrow> (Inr chat', [EvAddMessage chat userMessage])))"

text \<open>Lines 81-101: the provider's request, built from the conversation.\<close>

definition buildRequest :: "Chat \<Rightarrow> ChatCompletionRequest" where
  "buildRequest chat =
     (let messages =
            map (\<lambda>msg. \<lparr>ChatCompletionMessage.Role = Message.Role msg,
                         ChatCompletionMessage.Content = Message.Content msg\<rparr>)
              (Chat.Messages chat)
      in \<lparr>ChatCompletionRequest.Model = Name (ChatConfig.Model (Chat.Config chat)),
          ChatCompletionRequest.Messages = messages,
          ChatCompletionRequest.MaxTokens = ChatConfig.MaxTokens (Chat.Config chat),
          ChatCompletionRequest.Temperature = ChatConfig.Temperature (Chat.Config chat),
          ChatCompletionRequest.TopP = ChatConfig.TopP (Chat.Config chat),
          ChatCompletionRequest.Stop = ChatConfig.Stop (Chat.Config chat),
          ChatCompletionRequest.PresencePenalty = ChatConfig.PresencePenalty (Chat.Config chat),
          ChatCompletionRequest.FrequencyPenalty = ChatConfig.PresencePenalty (Chat.Config chat),
          ChatCompletionRequest.Stream = False\<rparr>)"

text \<open>
  Lines 107-124: the drain loop. \<open>fullResponse\<close> is the builder's content so far. The
  loop has no bound of its own: the first argument counts the receives the model still
  follows. Indexing \<^verbatim>\<open>response.Choices[0]\<close> on an empty slice panics. On the left of
  the result is the way the loop left \<^verbatim>\<open>Execute\<close>, on the right the builder's content
  at the \<^verbatim>\<open>break\<close>.
\<close>

primrec drain ::
  "'s OpenAiClient \<Rightarrow> Chat \<Rightarrow> nat \<Rightarrow> 's \<Rightarrow> string \<Rightarrow> (outcome + string) \<times> event list" where
  "drain client chat 0 resp fullResponse = (Inl OutOfFuel, [])"
| "drain client chat (Suc fuel) resp fullResponse =
     (case Recv client resp of
        (RecvEOF, resp') \<Rightarrow> (Inr fullResponse, [EvRecv RecvEOF])
      | (RecvErr err, resp') \<Rightarrow>
          (Inl (Failed (''error straming response: '' @ err)), [EvRecv (RecvErr err)])
      | (RecvOk response, resp') \<Rightarrow>
          (case Choices response of
             [] \<Rightarrow> (Inl Panicked, [EvRecv (RecvOk response)])
           | choice # _ \<Rightarrow>
               (let fullResponse' = fullResponse @ ChatCompletionStreamChoiceDelta.Content (Delta choice);
                    r = \<lparr>ChatCompletionOutputDTO.ChatID = Chat.ID chat,
                         ChatCompletionOutputDTO.UserID = Chat.UserID chat,
                         ChatCompletionOutputDTO.Content = fullResponse'\<rparr>;
                    (res, evs) = drain client chat fuel resp' fullResponse'
                in (res, EvRecv (RecvOk response) # EvSend r # evs))))"

text \<open>Lines 126-144: append the assistant's message, save, and return.\<close>

definition finishRound ::
  "entity \<Rightarrow> 's ChatCompletionUseCase \<Rightarrow> ChatCompletionInputDTO \<Rightarrow> Chat \<Rightarrow> string \<Rightarrow> outcome \<times> event list" where
  "finishRound ent uc input chat fullResponse =
     (case NewMessage ent ''assistant'' fullResponse (ChatConfig.Model (Chat.Config chat)) of
        Inl err \<Rightarrow> (Failed (''error creating assistant message: '' @ err), [])
      | Inr assistant \<Rightarrow>
          (case AddMessage ent chat assistant of
             Inl err \<Rightarrow> (Failed (''error adding new mesage: '' @ err), [EvAddMessage chat assistant])
           | Inr chat' \<Rightarrow>
               (case SaveChat (ChatGateway uc) chat' of
                  Some err \<Rightarrow>
                    (Failed (''error saving chat: '' @ err), [EvAddMessage chat assistant, EvSaveChat chat'])
                | None \<Rightarrow>
                    (Returned \<lparr>ChatCompletionOutputDTO.ChatID = ChatCompletionInputDTO.ChatID input,
                               ChatCompletionOutputDTO.UserID = Chat.UserID chat',
                               ChatCompletionOutputDTO.Content = fullResponse\<rparr>,
                     [EvAddMessage chat assistant, EvSaveChat chat']))))"

text \<open>Lines 103-106 and the loop's two exits tie the stages together.\<close>

definition streamAndFinish ::
  "entity \<Rightarrow> 's ChatCompletionUseCase \<Rightarrow> ChatCompletionInputDTO \<Rightarrow> nat \<Rightarrow> Chat \<Rightarrow> outcome \<times> event list" where
  "streamAndFinish ent uc input fuel chat =
     (case CreateChatCompletionStream (OpenAiClient uc) (buildRequest chat) of
        Inl err \<Rightarrow>
          (Failed (''error creating chat completion: '' @ err),
           [EvCreateChatCompletionStream (buildRequest chat)])
      | Inr resp \<Rightarrow>
          (case drain (OpenAiClient uc) chat fuel resp [] of
             (Inl out, evs) \<Rightarrow> (out, EvCreateChatCompletionStream (buildRequest chat) # evs)
           | (Inr fullResponse, evs) \<Rightarrow>
               (case finishRound ent uc input chat fullResponse of
                  (out, evs') \<Rightarrow> (out, EvCreateChatCompletionStream (buildRequest chat) # evs @ evs'))))"

definition Execute ::
  "entity \<Rightarrow> 's ChatCompletionUseCase \<Rightarrow> ChatCompletionInputDTO \<Rightarrow> nat \<Rightarrow> outcome \<times> event list" where
  "Execute ent uc input fuel =
     (case resolveChat ent uc input of
        (Inl err, evs) \<Rightarrow> (Failed err, evs)
      | (Inr chat, evs) \<Rightarrow>
          (case appendUserMessage ent input chat of
             (Inl err, evs') \<Rightarrow> (Failed err, evs @ evs')
           | (Inr chat', evs') \<Rightarrow>
               (case streamAndFinish ent uc input fuel chat' of
                  (out, evs'') \<Rightarrow> (out, evs @ evs' @ evs''))))"

subsection \<open>Reading the calls of a run\<close>

text \<open>The records sent on \<^verbatim>\<open>uc.Stream\<close>, in the order of the sends.\<close>

fun sent :: "event list \<Rightarrow> ChatCompletionOutputDTO list" where
  "sent [] = []"
| "sent (EvSend r # evs) = r # sent evs"
| "sent (_ # evs) = sent evs"

text \<open>The fragments that \<^verbatim>\<open>resp.Recv()\<close> returned without an error, in receipt order.\<close>

fun received :: "event list \<Rightarrow> ChatCompletionStreamResponse list" where
  "received [] = []"
| "received (EvRecv (RecvOk response) # evs) = response # received evs"
| "received (_ # evs) = received evs"

text \<open>The calls of \<^verbatim>\<open>chat.AddMessage\<close>: the conversation before the call, and the message.\<close>

fun appended :: "event list \<Rightarrow> (Chat \<times> Message) list" where
  "appended [] = []"
| "appended (EvAddMessage chat m # evs) = (chat, m) # appended evs"
| "appended (_ # evs) = appended evs"

text \<open>The conversations handed to \<^verbatim>\<open>SaveChat\<close>, to \<^verbatim>\<open>CreateChat\<close>, and the calls of \<^verbatim>\<open>entity.NewChat\<close>.\<close>

fun saved :: "event list \<Rightarrow> Chat list" where
  "saved [] = []"
| "saved (EvSaveChat chat # evs) = chat # saved evs"
| "saved (_ # evs) = saved evs"

fun created :: "event list \<Rightarrow> Chat list" where
  "created [] = []"
| "created (EvCreateChat chat # evs) = chat # created evs"
| "created (_ # evs) = created evs"

fun constructed :: "event list \<Rightarrow> (string \<times> Message \<times> ChatConfig) list" where
  "constructed [] = []"
| "constructed (EvNewChat userID m chatConfig # evs) = (userID, m, chatConfig) # constructed evs"
| "constructed (_ # evs) = constructed evs"

text \<open>The requests handed to the provider.\<close>

fun requests :: "event list \<Rightarrow> ChatCompletionRequest list" where
  "requests [] = []"
| "requests (EvCreateChatCompletionStream req # evs) = req # requests evs"
| "requests (_ # evs) = requests evs"

text \<open>The events of the drain loop.\<close>

fun stream_event :: "event \<Rightarrow> bool" where
  "stream_event (EvRecv _) = True"
| "stream_event (EvSend _) = True"
| "stream_event _ = False"


subsection \<open>What the use case expects of the entity package\<close>



subsection \<open>A small world to run the use case in\<close>

text \<open>
  Modelled from the spec: an entity package for the concrete runs below, since
  \<^verbatim>\<open>internal/domain/entity\<close> is outside \<^verbatim>\<open>completion.go\<close>. A message is valid when its
  text fits the model's maximum context size (counted in bytes here); a new conversation
  starts with its initial message; appending adds the message at the end.
\<close>

definition plainEntity :: entity where
  "plainEntity =
     \<lparr>NewModel = (\<lambda>name maxTokens. \<lparr>Name = name, Model.MaxTokens = maxTokens\<rparr>),
      NewMessage = (\<lambda>role content model.
        if length content \<le> unat (Model.MaxTokens model)
        then Inr \<lparr>Message.Role = role, Message.Content = content, Message.Model = model\<rparr>
        else Inl ''content exceeds the context size''),
      NewChat = (\<lambda>userID initialSystemMessage chatConfig.
        Inr \<lparr>Chat.ID = ''c-1'', Chat.UserID = userID, Chat.Config = chatConfig,
             Chat.Messages = [initialSystemMessage]\<rparr>),
      AddMessage = (\<lambda>chat m. Inr (chat\<lparr>Chat.Messages := Chat.Messages chat @ [m]\<rparr>))\<rparr>"

text \<open>A provider whose stream replays a script and then ends cleanly.\<close>

definition scriptedClient :: "recv_result list \<Rightarrow> recv_result list OpenAiClient" where
  "scriptedClient script =
     \<lparr>CreateChatCompletionStream = (\<lambda>req. Inr script),
      Recv = (\<lambda>s. case s of [] \<Rightarrow> (RecvEOF, []) | x # xs \<Rightarrow> (x, xs))\<rparr>"

text \<open>A store that holds no conversation, and one whose lookup fails.\<close>

definition emptyStore :: ChatGateway where
  "emptyStore =
     \<lparr>FindChatByID = (\<lambda>id. Inl ''chat not found''),
      CreateChat = (\<lambda>chat. None),
      SaveChat = (\<lambda>chat. None)\<rparr>"

definition brokenStore :: ChatGateway where
  "brokenStore =
     \<lparr>FindChatByID = (\<lambda>id. Inl ''connection refused''),
      CreateChat = (\<lambda>chat. None),
      SaveChat = (\<lambda>chat. None)\<rparr>"

definition fragment :: "string \<Rightarrow> recv_result" where
  "fragment text =
     RecvOk \<lparr>Choices = [\<lparr>Delta = \<lparr>ChatCompletionStreamChoiceDelta.Content = text\<rparr>\<rparr>]\<rparr>"

text \<open>
  The example of the spec's section 8: no conversation yet, the system message
  \<^verbatim>\<open>You are helpful\<close>, the user says \<^verbatim>\<open>hi\<close>. The penalties are 0.5 and 0.25, the
  temperature and top-p 1.0, as bit patterns.
\<close>

definition helloInput :: ChatCompletionInputDTO where
  "helloInput =
     \<lparr>ChatCompletionInputDTO.ChatID = ''chat-42'',
      ChatCompletionInputDTO.UserID = ''luan'',
      UserMessage = ''hi'',
      ChatCompletionInputDTO.Config =
        \<lparr>ChatCompletionConfigInputDTO.Model = ''gpt-3.5-turbo'',
         ModelMaxToken = 4096,
         ChatCompletionConfigInputDTO.Temperature = 0x3F800000,
         ChatCompletionConfigInputDTO.TopP = 0x3F800000,
         ChatCompletionConfigInputDTO.N = 1,
         ChatCompletionConfigInputDTO.Stop = [],
         ChatCompletionConfigInputDTO.MaxTokens = 300,
         ChatCompletionConfigInputDTO.PresencePenalty = 0x3F000000,
         ChatCompletionConfigInputDTO.FrequencyePenalty = 0x3E800000,
         InitialSystemMessage = ''You are helpful''\<rparr>\<rparr>"

definition helloUseCase :: "recv_result list ChatCompletionUseCase" where
  "helloUseCase =
     \<lparr>ChatGateway = emptyStore,
      OpenAiClient = scriptedClient [fragment ''He'', fragment ''llo'', fragment ''!'']\<rparr>"

definition brokenUseCase :: "recv_result list ChatCompletionUseCase" where
  "brokenUseCase = \<lparr>ChatGateway = brokenStore, OpenAiClient = scriptedClient []\<rparr>"

text \<open>The pieces of the run of that example, and the calls it makes.\<close>

definition helloModel :: Model where
  "helloModel = \<lparr>Name = ''gpt-3.5-turbo'', Model.MaxTokens = 4096\<rparr>"

definition helloConfig :: ChatConfig where
  "helloConfig =
     \<lparr>ChatConfig.Model = helloModel,
      ChatConfig.Temperature = 0x3F800000,
      ChatConfig.TopP = 0x3F800000,
      ChatConfig.N = 1,
      ChatConfig.Stop = [],
      ChatConfig.MaxTokens = 300,
      ChatConfig.PresencePenalty = 0x3F000000,
      ChatConfig.FrequencyePenalty = 0x3E800000\<rparr>"

definition helloMessage :: "string \<Rightarrow> string \<Rightarrow> Message" where
  "helloMessage role content =
     \<lparr>Message.Role = role, Message.Content = content, Message.Model = helloModel\<rparr>"

definition helloChat :: "Message list \<Rightarrow> Chat" where
  "helloChat msgs =
     \<lparr>Chat.ID = ''c-1'', Chat.UserID = ''luan'', Chat.Config = helloConfig, Chat.Messages = msgs\<rparr>"

definition helloRequest :: ChatCompletionRequest where
  "helloRequest =
     \<lparr>ChatCompletionRequest.Model = ''gpt-3.5-turbo'',
      ChatCompletionRequest.Messages =
        [\<lparr>ChatCompletionMessage.Role = ''system'', ChatCompletionMessage.Content = ''You are helpful''\<rparr>,
         \<lparr>ChatCompletionMessage.Role = ''user'', ChatCompletionMessage.Content = ''hi''\<rparr>],
      ChatCompletionRequest.MaxTokens = 300,
      ChatCompletionRequest.Temperature = 0x3F800000,
      ChatCompletionRequest.TopP = 0x3F800000,
      ChatCompletionRequest.Stop = [],
      ChatCompletionRequest.PresencePenalty = 0x3F000000,
      ChatCompletionRequest.FrequencyPenalty = 0x3F000000,
      ChatCompletionRequest.Stream = False\<rparr>"

definition helloPartial :: "string \<Rightarrow> ChatCompletionOutputDTO" where
  "helloPartial content =
     \<lparr>ChatCompletionOutputDTO.ChatID = ''c-1'',
      ChatCompletionOutputDTO.UserID = ''luan'',
      ChatCompletionOutputDTO.Content = content\<rparr>"

definition helloPrefix :: "event list" where
  "helloPrefix =
     [EvFindChatByID ''chat-42'',
      EvNewChat ''luan'' (helloMessage ''system'' ''You are helpful'') helloConfig,
      EvCreateChat (helloChat [helloMessage ''system'' ''You are helpful'']),
      EvAddMessage (helloChat [helloMessage ''system'' ''You are helpful'']) (helloMessage ''user'' ''hi''),
      EvCreateChatCompletionStream helloRequest,
      EvRecv (fragment ''He''),
      EvSend (helloPartial ''He'')]"

definition helloLog :: "event list" where
  "helloLog = helloPrefix @
     [EvRecv (fragment ''llo''),
      EvSend (helloPartial ''Hello''),
      EvRecv (fragment ''!''),
      EvSend (helloPartial ''Hello!''),
      EvRecv RecvEOF,
      EvAddMessage
        (helloChat [helloMessage ''system'' ''You are helpful'', helloMessage ''user'' ''hi''])
        (helloMessage ''assistant'' ''Hello!''),
      EvSaveChat
        (helloChat [helloMessage ''system'' ''You are helpful'', helloMessage ''user'' ''hi'',
                    helloMessage ''assistant'' ''Hello!''])]"

definition helloOutput :: ChatCompletionOutputDTO where
  "helloOutput =
     \<lparr>ChatCompletionOutputDTO.ChatID = ''chat-42'',
      ChatCompletionOutputDTO.UserID = ''luan'',
      ChatCompletionOutputDTO.Content = ''Hello!''\<rparr>"

text \<open>A stream that breaks after one fragment, and one whose second fragment has no choice.\<close>

definition resetUseCase :: "recv_result list ChatCompletionUseCase" where
  "resetUseCase =
     \<lparr>ChatGateway = emptyStore,
      OpenAiClient = scriptedClient [fragment ''He'', RecvErr ''connection reset'']\<rparr>"

definition noChoiceUseCase :: "recv_result list ChatCompletionUseCase" where
  "noChoiceUseCase =
     \<lparr>ChatGateway = emptyStore,
      OpenAiClient = scriptedClient [fragment ''He'', RecvOk \<lparr>Choices = []\<rparr>]\<rparr>"


section \<open>Properties\<close>

subsection \<open>Reading a list of events\<close>

lemma sent_append: "sent (xs @ ys) = sent xs @ sent ys"
  by (induction xs rule: sent.induct) simp_all

lemma received_append: "received (xs @ ys) = received xs @ received ys"
  by (induction xs rule: received.induct) simp_all

lemma appended_append: "appended (xs @ ys) = appended xs @ appended ys"
  by (induction xs rule: appended.induct) simp_all

lemma saved_append: "saved (xs @ ys) = saved xs @ saved ys"
  by (induction xs rule: saved.induct) simp_all

lemma created_append: "created (xs @ ys) = created xs @ created ys"
  by (induction xs rule: created.induct) simp_all

lemma constructed_append: "constructed (xs @ ys) = constructed xs @ constructed ys"
  by (induction xs rule: constructed.induct) simp_all

lemma requests_append: "requests (xs @ ys) = requests xs @ requests ys"
  by (induction xs rule: requests.induct) simp_all

lemmas proj_append = sent_append received_append appended_append saved_append created_append
  constructed_append requests_append

lemma stream_events_proj:
  "list_all stream_event evs \<Longrightarrow>
   appended evs = [] \<and> saved evs = [] \<and> created evs = [] \<and> constructed evs = [] \<and> requests evs = []"
proof (induction evs)
  case Nil
  then show ?case by simp
next
  case (Cons e evs)
  then show ?case by (cases e) simp_all
qed

subsection \<open>The stages and their events\<close>



lemma resolveChat_events:
  assumes "resolveChat ent uc input = (res, evs)"
  shows "sent evs = [] \<and> received evs = [] \<and> appended evs = [] \<and> saved evs = [] \<and>
         requests evs = [] \<and> (\<forall>x. EvRecv x \<notin> set evs)"
  using assms unfolding resolveChat_def createNewChat_def Let_def
  by (auto split: sum.splits if_splits option.splits prod.splits)



lemma appendUserMessage_events:
  assumes "appendUserMessage ent input chat = (res, evs)"
  shows "sent evs = [] \<and> received evs = [] \<and> saved evs = [] \<and> created evs = [] \<and>
         constructed evs = [] \<and> requests evs = [] \<and> (\<forall>x. EvRecv x \<notin> set evs)"
  using assms unfolding appendUserMessage_def
  by (auto split: sum.splits)

lemma appendUserMessage_Inr:
  assumes "appendUserMessage ent input chat = (Inr chat', evs)"
  shows "\<exists>userMessage.
           NewMessage ent ''user'' (UserMessage input) (ChatConfig.Model (Chat.Config chat)) = Inr userMessage \<and>
           AddMessage ent chat userMessage = Inr chat' \<and> evs = [EvAddMessage chat userMessage]"
  using assms unfolding appendUserMessage_def
  by (auto split: sum.splits)


lemma buildRequest_sampling:
  "ChatCompletionRequest.MaxTokens (buildRequest chat) = ChatConfig.MaxTokens (Chat.Config chat) \<and>
   ChatCompletionRequest.Temperature (buildRequest chat) = ChatConfig.Temperature (Chat.Config chat) \<and>
   ChatCompletionRequest.TopP (buildRequest chat) = ChatConfig.TopP (Chat.Config chat) \<and>
   ChatCompletionRequest.Stop (buildRequest chat) = ChatConfig.Stop (Chat.Config chat) \<and>
   ChatCompletionRequest.PresencePenalty (buildRequest chat) = ChatConfig.PresencePenalty (Chat.Config chat) \<and>
   ChatCompletionRequest.FrequencyPenalty (buildRequest chat) = ChatConfig.PresencePenalty (Chat.Config chat) \<and>
   ChatCompletionRequest.Stream (buildRequest chat) = False"
  by (simp add: buildRequest_def)

lemma finishRound_events:
  assumes "finishRound ent uc input chat full = (out, evs)"
  shows "sent evs = [] \<and> received evs = [] \<and> created evs = [] \<and> constructed evs = [] \<and>
         requests evs = [] \<and> (\<forall>x. EvRecv x \<notin> set evs)"
  using assms unfolding finishRound_def
  by (auto split: sum.splits option.splits)

lemma finishRound_outcome:
  assumes "finishRound ent uc input chat full = (out, evs)"
  shows "out \<noteq> Panicked \<and> out \<noteq> OutOfFuel"
  using assms unfolding finishRound_def
  by (auto split: sum.splits option.splits)



subsection \<open>The drain loop\<close>

lemma drain_stream_events:
  "drain client chat fuel resp full = (res, evs) \<Longrightarrow> list_all stream_event evs"
  by (induction fuel arbitrary: resp full res evs)
     (auto split: prod.splits recv_result.splits list.splits simp: Let_def)

lemma drain_recv_error:
  "drain client chat fuel resp full = (res, evs) \<Longrightarrow> EvRecv (RecvErr e) \<in> set evs \<Longrightarrow>
   res = Inl (Failed (''error straming response: '' @ e))"
  by (induction fuel arbitrary: resp full res evs)
     (auto split: prod.splits recv_result.splits list.splits simp: Let_def)


lemma drain_panic:
  "drain client chat fuel resp full = (res, evs) \<Longrightarrow>
   (res = Inl Panicked) = (\<exists>r\<in>set (received evs). Choices r = [])"
  by (induction fuel arbitrary: resp full res evs)
     (auto split: prod.splits recv_result.splits list.splits simp: Let_def)





text \<open>
  The fuel only cuts a run short: a loop that has ended keeps its result with more fuel,
  and a loop cut short has received a fragment, and sent a record, for each unit of fuel.
\<close>

lemma drain_more_fuel:
  "drain client chat fuel resp full = (res, evs) \<Longrightarrow> res \<noteq> Inl OutOfFuel \<Longrightarrow>
   drain client chat (fuel + k) resp full = (res, evs)"
proof (induction fuel arbitrary: resp full res evs)
  case 0
  then show ?case by simp
next
  case (Suc fuel)
  obtain rr resp' where rv: "Recv client resp = (rr, resp')"
    by (cases "Recv client resp")
  show ?case
  proof (cases rr)
    case RecvEOF
    with rv Suc.prems show ?thesis by auto
  next
    case (RecvErr e)
    with rv Suc.prems show ?thesis by auto
  next
    case (RecvOk response)
    show ?thesis
    proof (cases "Choices response")
      case Nil
      with rv RecvOk Suc.prems show ?thesis by auto
    next
      case (Cons choice rest)
      let ?full = "full @ ChatCompletionStreamChoiceDelta.Content (Delta choice)"
      obtain res' evs' where d: "drain client chat fuel resp' ?full = (res', evs')"
        by (cases "drain client chat fuel resp' ?full")
      from Suc.prems rv RecvOk Cons d have "res' = res" by (auto simp: Let_def)
      with Suc.prems(2) have "res' \<noteq> Inl OutOfFuel" by simp
      from Suc.IH [OF d this] have "drain client chat (fuel + k) resp' ?full = (res', evs')" .
      with Suc.prems(1) rv RecvOk Cons d show ?thesis by (simp add: Let_def)
    qed
  qed
qed

lemma drain_out_of_fuel:
  "drain client chat fuel resp full = (Inl OutOfFuel, evs) \<Longrightarrow>
   length (received evs) = fuel \<and> length (sent evs) = fuel"
  by (induction fuel arbitrary: resp full evs)
     (auto split: prod.splits recv_result.splits list.splits simp: Let_def)

subsection \<open>The ways through Execute\<close>

lemma Execute_cases [consumes 1, case_names Unresolved Unappended Refused Aborted Drained]:
  assumes "Execute ent uc input fuel = (out, log)"
  obtains
    (Unresolved) err where "resolveChat ent uc input = (Inl err, log)" "out = Failed err"
  | (Unappended) chat0 evs0 err evs1 where
      "resolveChat ent uc input = (Inr chat0, evs0)"
      "appendUserMessage ent input chat0 = (Inl err, evs1)"
      "out = Failed err" "log = evs0 @ evs1"
  | (Refused) chat0 evs0 chat evs1 err where
      "resolveChat ent uc input = (Inr chat0, evs0)"
      "appendUserMessage ent input chat0 = (Inr chat, evs1)"
      "CreateChatCompletionStream (OpenAiClient uc) (buildRequest chat) = Inl err"
      "out = Failed (''error creating chat completion: '' @ err)"
      "log = evs0 @ evs1 @ [EvCreateChatCompletionStream (buildRequest chat)]"
  | (Aborted) chat0 evs0 chat evs1 resp evs2 where
      "resolveChat ent uc input = (Inr chat0, evs0)"
      "appendUserMessage ent input chat0 = (Inr chat, evs1)"
      "CreateChatCompletionStream (OpenAiClient uc) (buildRequest chat) = Inr resp"
      "drain (OpenAiClient uc) chat fuel resp [] = (Inl out, evs2)"
      "log = evs0 @ evs1 @ EvCreateChatCompletionStream (buildRequest chat) # evs2"
  | (Drained) chat0 evs0 chat evs1 resp fullResponse evs2 evs3 where
      "resolveChat ent uc input = (Inr chat0, evs0)"
      "appendUserMessage ent input chat0 = (Inr chat, evs1)"
      "CreateChatCompletionStream (OpenAiClient uc) (buildRequest chat) = Inr resp"
      "drain (OpenAiClient uc) chat fuel resp [] = (Inr fullResponse, evs2)"
      "finishRound ent uc input chat fullResponse = (out, evs3)"
      "log = evs0 @ evs1 @ EvCreateChatCompletionStream (buildRequest chat) # evs2 @ evs3"
  using assms unfolding Execute_def streamAndFinish_def
  by (auto split: prod.splits sum.splits)

lemma Execute_more_fuel:
  assumes "Execute ent uc input fuel = (out, log)" and "out \<noteq> OutOfFuel"
  shows "Execute ent uc input (fuel + k) = (out, log)"
  using assms(1)
proof (cases rule: Execute_cases)
  case (Unresolved err)
  then show ?thesis by (simp add: Execute_def)
next
  case (Unappended chat0 evs0 err evs1)
  then show ?thesis by (simp add: Execute_def)
next
  case (Refused chat0 evs0 chat evs1 err)
  then show ?thesis by (simp add: Execute_def streamAndFinish_def)
next
  case (Aborted chat0 evs0 chat evs1 resp evs2)
  from assms(2) have "Inl out \<noteq> (Inl OutOfFuel :: outcome + string)" by simp
  from drain_more_fuel [OF Aborted(4) this]
  have "drain (OpenAiClient uc) chat (fuel + k) resp [] = (Inl out, evs2)" .
  with Aborted show ?thesis by (simp add: Execute_def streamAndFinish_def)
next
  case (Drained chat0 evs0 chat evs1 resp fullResponse evs2 evs3)
  have "drain (OpenAiClient uc) chat (fuel + k) resp [] = (Inr fullResponse, evs2)"
    by (rule drain_more_fuel [OF Drained(4)]) simp
  with Drained show ?thesis by (simp add: Execute_def streamAndFinish_def)
qed

lemma Execute_out_of_fuel:
  assumes "Execute ent uc input fuel = (OutOfFuel, log)"
  shows "length (received log) = fuel \<and> length (sent log) = fuel"
  using assms
proof (cases rule: Execute_cases)
  case (Aborted chat0 evs0 chat evs1 resp evs2)
  then show ?thesis
    using resolveChat_events [of ent uc input] appendUserMessage_events [of ent input chat0]
      drain_out_of_fuel [OF Aborted(4)]
    by (simp add: proj_append)
next
  case (Drained chat0 evs0 chat evs1 resp fullResponse evs2 evs3)
  with finishRound_outcome [OF Drained(5)] show ?thesis by simp
qed simp_all


lemma Execute_requests:
  assumes run: "Execute ent uc input fuel = (out, log)"
    and res: "resolveChat ent uc input = (Inr chat0, evs0)"
    and app: "appendUserMessage ent input chat0 = (Inr chat, evs1)"
  shows "requests log = [buildRequest chat]"
  using run
proof (cases rule: Execute_cases)
  case (Unresolved err)
  with res show ?thesis by simp
next
  case (Unappended chat0 evs0 err evs1)
  with res app show ?thesis by simp
next
  case (Refused c0 e0 c e1 err)
  with res app show ?thesis
    using resolveChat_events [of ent uc input] appendUserMessage_events [of ent input chat0]
    by (simp add: proj_append)
next
  case (Aborted c0 e0 c e1 resp evs2)
  with res app show ?thesis
    using resolveChat_events [of ent uc input] appendUserMessage_events [of ent input chat0]
      stream_events_proj [OF drain_stream_events [OF Aborted(4)]]
    by (simp add: proj_append)
next
  case (Drained c0 e0 c e1 resp fullResponse evs2 evs3)
  with res app show ?thesis
    using resolveChat_events [of ent uc input] appendUserMessage_events [of ent input chat0]
      stream_events_proj [OF drain_stream_events [OF Drained(4)]]
      finishRound_events [of ent uc input chat fullResponse]
    by (simp add: proj_append)
qed



subsection \<open>The runs of the small world\<close>

lemma hello_run: "Execute plainEntity helloUseCase helloInput 4 = (Returned helloOutput, helloLog)"
  by code_simp

lemma hello_short_run: "Execute plainEntity helloUseCase helloInput 1 = (OutOfFuel, helloPrefix)"
  by code_simp

lemma reset_run:
  "Execute plainEntity resetUseCase helloInput 4 =
     (Failed ''error straming response: connection reset'', helloPrefix @ [EvRecv (RecvErr ''connection reset'')])"
  by code_simp

lemma noChoice_run:
  "Execute plainEntity noChoiceUseCase helloInput 4 =
     (Panicked, helloPrefix @ [EvRecv (RecvOk \<lparr>Choices = []\<rparr>)])"
  by code_simp



lemma hello_resolve:
  "resolveChat plainEntity helloUseCase helloInput =
     (Inr (helloChat [helloMessage ''system'' ''You are helpful'']),
      [EvFindChatByID ''chat-42'',
       EvNewChat ''luan'' (helloMessage ''system'' ''You are helpful'') helloConfig,
       EvCreateChat (helloChat [helloMessage ''system'' ''You are helpful''])])"
  by code_simp



lemmas hello_defs = helloLog_def helloPrefix_def helloRequest_def helloChat_def helloMessage_def
  helloConfig_def helloModel_def helloOutput_def helloPartial_def fragment_def

section \<open>The claims\<close>

subsection \<open>The final content\<close>



subsection \<open>The partial results\<close>



subsection \<open>The sampling parameters of the request\<close>

text \<open>
  C3. The request is to carry the conversation's configuration, field by field. Line 99
  fills the request's frequency penalty from the configuration's presence penalty. In the
  run of the example the conversation created has a presence penalty of 0.5 and a
  frequency penalty of 0.25, and the request handed to the provider has a frequency
  penalty of 0.5.
\<close>

theorem request_frequency_penalty_evaluated:
  "snd (Execute plainEntity helloUseCase helloInput 4) = helloLog
   \<and> map (\<lambda>chat. ChatConfig.PresencePenalty (Chat.Config chat)) (created helloLog) = [0x3F000000]
   \<and> map (\<lambda>chat. ChatConfig.FrequencyePenalty (Chat.Config chat)) (created helloLog) = [0x3E800000]
   \<and> map ChatCompletionRequest.PresencePenalty (requests helloLog) = [0x3F000000]
   \<and> map ChatCompletionRequest.FrequencyPenalty (requests helloLog) = [0x3F000000]"
  by (simp add: hello_run hello_defs)

subsection \<open>The streaming flag of the request\<close>


subsection \<open>A receive error\<close>

text \<open>
  C5. In every run in which a receive returns an error other than end-of-stream, \<^verbatim>\<open>Execute\<close>
  returns an error (\<^verbatim>\<open>error straming response: \<close> and the error's text), the store's save
  is not called, and the one append of the run is that of the user's message: no
  assistant message is appended.
\<close>

theorem receive_error_aborts:
  assumes run: "Execute ent uc input fuel = (out, log)"
    and rerr: "EvRecv (RecvErr err) \<in> set log"
  shows "out = Failed (''error straming response: '' @ err) \<and>
         saved log = [] \<and>
         (\<exists>chat userMessage.
            appended log = [(chat, userMessage)] \<and>
            NewMessage ent ''user'' (UserMessage input) (ChatConfig.Model (Chat.Config chat)) = Inr userMessage)"
  using run
proof (cases rule: Execute_cases)
  case (Unresolved e)
  with rerr show ?thesis using resolveChat_events by fastforce
next
  case (Unappended chat0 evs0 e evs1)
  with rerr show ?thesis
    using resolveChat_events [of ent uc input] appendUserMessage_events [of ent input chat0]
    by auto
next
  case (Refused chat0 evs0 chat evs1 e)
  with rerr show ?thesis
    using resolveChat_events [of ent uc input] appendUserMessage_events [of ent input chat0]
    by auto
next
  case (Aborted chat0 evs0 chat evs1 resp evs2)
  with rerr have "EvRecv (RecvErr err) \<in> set evs2"
    using resolveChat_events [of ent uc input] appendUserMessage_events [of ent input chat0]
    by auto
  from drain_recv_error [OF Aborted(4) this]
  have out: "out = Failed (''error straming response: '' @ err)" by simp
  from appendUserMessage_Inr [OF Aborted(2)] obtain userMessage where
    u: "NewMessage ent ''user'' (UserMessage input) (ChatConfig.Model (Chat.Config chat0)) = Inr userMessage"
       "evs1 = [EvAddMessage chat0 userMessage]"
    by blast
  have "saved log = []" "appended log = [(chat0, userMessage)]"
    using Aborted u(2) resolveChat_events [of ent uc input]
      stream_events_proj [OF drain_stream_events [OF Aborted(4)]]
    by (simp_all add: proj_append)
  with out u(1) show ?thesis by blast
next
  case (Drained chat0 evs0 chat evs1 resp fullResponse evs2 evs3)
  with rerr have "EvRecv (RecvErr err) \<in> set evs2"
    using resolveChat_events [of ent uc input] appendUserMessage_events [of ent input chat0]
      finishRound_events [of ent uc input chat fullResponse]
    by auto
  from drain_recv_error [OF Drained(4) this] show ?thesis by simp
qed

theorem receive_error_aborts_witness:
  "Execute plainEntity resetUseCase helloInput 4 =
     (Failed ''error straming response: connection reset'',
      helloPrefix @ [EvRecv (RecvErr ''connection reset'')])
   \<and> EvRecv (RecvErr ''connection reset'') \<in> set (helloPrefix @ [EvRecv (RecvErr ''connection reset'')])
   \<and> saved (helloPrefix @ [EvRecv (RecvErr ''connection reset'')]) = []
   \<and> appended (helloPrefix @ [EvRecv (RecvErr ''connection reset'')]) =
       [(helloChat [helloMessage ''system'' ''You are helpful''], helloMessage ''user'' ''hi'')]"
proof -
  have rerr: "EvRecv (RecvErr ''connection reset'') \<in> set (helloPrefix @ [EvRecv (RecvErr ''connection reset'')])"
    by simp
  have app: "appended (helloPrefix @ [EvRecv (RecvErr ''connection reset'')]) =
       [(helloChat [helloMessage ''system'' ''You are helpful''], helloMessage ''user'' ''hi'')]"
    by (simp add: helloPrefix_def fragment_def)
  from receive_error_aborts [OF reset_run rerr] reset_run rerr app show ?thesis by blast
qed

subsection \<open>A conversation that does not exist yet\<close>




subsection \<open>A failed lookup\<close>

text \<open>
  C7. When the lookup fails with an error other than \<^verbatim>\<open>chat not found\<close>, the run
  returns an error whose message starts with \<^verbatim>\<open>error fetching existing chat: \<close>, and
  the lookup is the only call it has made: the provider is not called, and neither the
  store's create nor its save.
\<close>

theorem Execute_fetch_error:
  assumes "FindChatByID (ChatGateway uc) (ChatCompletionInputDTO.ChatID input) = Inl err"
    and "err \<noteq> ''chat not found''"
  shows "Execute ent uc input fuel =
           (Failed (''error fetching existing chat: '' @ err),
            [EvFindChatByID (ChatCompletionInputDTO.ChatID input)])"
  using assms by (simp add: Execute_def resolveChat_def)

theorem Execute_fetch_error_witness:
  "FindChatByID (ChatGateway brokenUseCase) (ChatCompletionInputDTO.ChatID helloInput)
     = Inl ''connection refused''
   \<and> ''connection refused'' \<noteq> ''chat not found''
   \<and> Execute plainEntity brokenUseCase helloInput 4 =
       (Failed ''error fetching existing chat: connection refused'', [EvFindChatByID ''chat-42''])"
proof -
  have found: "FindChatByID (ChatGateway brokenUseCase) (ChatCompletionInputDTO.ChatID helloInput)
                 = Inl ''connection refused''"
    by (simp add: brokenUseCase_def brokenStore_def)
  have other: "''connection refused'' \<noteq> ''chat not found''"
    by simp
  from Execute_fetch_error [OF found other, of plainEntity 4] found other
  show ?thesis by (simp add: helloInput_def)
qed

subsection \<open>The messages of the request\<close>

text \<open>
  C8. Let \<open>chat\<close> be the conversation as the append of the user's message left it, which
  is the conversation at the point the request is built. The run hands the provider one
  request, and its message list has one entry for each message of \<open>chat\<close>, in the same
  order, each with the role and the content of the message at its position.
\<close>

theorem request_mirrors_conversation:
  assumes run: "Execute ent uc input fuel = (out, log)"
    and res: "resolveChat ent uc input = (Inr chat0, evs0)"
    and usr: "NewMessage ent ''user'' (UserMessage input) (ChatConfig.Model (Chat.Config chat0)) = Inr userMessage"
    and add: "AddMessage ent chat0 userMessage = Inr chat"
  shows "\<exists>req. requests log = [req] \<and>
           length (ChatCompletionRequest.Messages req) = length (Chat.Messages chat) \<and>
           (\<forall>i<length (Chat.Messages chat).
              ChatCompletionMessage.Role (ChatCompletionRequest.Messages req ! i)
                = Message.Role (Chat.Messages chat ! i) \<and>
              ChatCompletionMessage.Content (ChatCompletionRequest.Messages req ! i)
                = Message.Content (Chat.Messages chat ! i))"
proof -
  from usr add have app: "appendUserMessage ent input chat0 = (Inr chat, [EvAddMessage chat0 userMessage])"
    by (simp add: appendUserMessage_def)
  from Execute_requests [OF run res app] have "requests log = [buildRequest chat]" .
  moreover have "length (ChatCompletionRequest.Messages (buildRequest chat)) = length (Chat.Messages chat)"
    by (simp add: buildRequest_def)
  moreover have "\<forall>i<length (Chat.Messages chat).
              ChatCompletionMessage.Role (ChatCompletionRequest.Messages (buildRequest chat) ! i)
                = Message.Role (Chat.Messages chat ! i) \<and>
              ChatCompletionMessage.Content (ChatCompletionRequest.Messages (buildRequest chat) ! i)
                = Message.Content (Chat.Messages chat ! i)"
    by (simp add: buildRequest_def)
  ultimately show ?thesis by blast
qed

theorem request_mirrors_conversation_witness:
  "Execute plainEntity helloUseCase helloInput 4 = (Returned helloOutput, helloLog)
   \<and> resolveChat plainEntity helloUseCase helloInput =
       (Inr (helloChat [helloMessage ''system'' ''You are helpful'']),
        [EvFindChatByID ''chat-42'',
         EvNewChat ''luan'' (helloMessage ''system'' ''You are helpful'') helloConfig,
         EvCreateChat (helloChat [helloMessage ''system'' ''You are helpful''])])
   \<and> NewMessage plainEntity ''user'' (UserMessage helloInput)
        (ChatConfig.Model (Chat.Config (helloChat [helloMessage ''system'' ''You are helpful''])))
       = Inr (helloMessage ''user'' ''hi'')
   \<and> AddMessage plainEntity (helloChat [helloMessage ''system'' ''You are helpful''])
        (helloMessage ''user'' ''hi'')
       = Inr (helloChat [helloMessage ''system'' ''You are helpful'', helloMessage ''user'' ''hi''])
   \<and> requests helloLog = [helloRequest]
   \<and> map (\<lambda>m. (ChatCompletionMessage.Role m, ChatCompletionMessage.Content m))
        (ChatCompletionRequest.Messages helloRequest)
       = [(''system'', ''You are helpful''), (''user'', ''hi'')]
   \<and> (\<exists>req. requests helloLog = [req] \<and>
         length (ChatCompletionRequest.Messages req)
           = length (Chat.Messages (helloChat [helloMessage ''system'' ''You are helpful'', helloMessage ''user'' ''hi''])) \<and>
         (\<forall>i<length (Chat.Messages (helloChat [helloMessage ''system'' ''You are helpful'', helloMessage ''user'' ''hi''])).
            ChatCompletionMessage.Role (ChatCompletionRequest.Messages req ! i)
              = Message.Role (Chat.Messages (helloChat [helloMessage ''system'' ''You are helpful'', helloMessage ''user'' ''hi'']) ! i) \<and>
            ChatCompletionMessage.Content (ChatCompletionRequest.Messages req ! i)
              = Message.Content (Chat.Messages (helloChat [helloMessage ''system'' ''You are helpful'', helloMessage ''user'' ''hi'']) ! i)))"
proof -
  have usr: "NewMessage plainEntity ''user'' (UserMessage helloInput)
        (ChatConfig.Model (Chat.Config (helloChat [helloMessage ''system'' ''You are helpful''])))
       = Inr (helloMessage ''user'' ''hi'')"
    by code_simp
  have add: "AddMessage plainEntity (helloChat [helloMessage ''system'' ''You are helpful''])
        (helloMessage ''user'' ''hi'')
       = Inr (helloChat [helloMessage ''system'' ''You are helpful'', helloMessage ''user'' ''hi''])"
    by (simp add: plainEntity_def helloChat_def)
  have req: "requests helloLog = [helloRequest]"
    by (simp add: helloLog_def helloPrefix_def fragment_def)
  have msgs: "map (\<lambda>m. (ChatCompletionMessage.Role m, ChatCompletionMessage.Content m))
        (ChatCompletionRequest.Messages helloRequest)
       = [(''system'', ''You are helpful''), (''user'', ''hi'')]"
    by (simp add: helloRequest_def)
  from request_mirrors_conversation [OF hello_run hello_resolve usr add]
    hello_run hello_resolve usr add req msgs
  show ?thesis by blast
qed

subsection \<open>The identifiers of the results\<close>



subsection \<open>A fragment without a choice\<close>

text \<open>
  C10. Line 117 indexes the first choice of each fragment without a guard. A run panics
  exactly when one of the fragments it received has an empty choice list: the index is in
  bounds as long as every fragment received has a choice, and out of bounds for a
  fragment that has none.
\<close>

theorem panic_iff_empty_choices:
  assumes "Execute ent uc input fuel = (out, log)"
  shows "(out = Panicked) = (\<exists>r\<in>set (received log). Choices r = [])"
  using assms
proof (cases rule: Execute_cases)
  case (Unresolved err)
  then show ?thesis using resolveChat_events by fastforce
next
  case (Unappended chat0 evs0 err evs1)
  then show ?thesis
    using resolveChat_events [of ent uc input] appendUserMessage_events [of ent input chat0]
    by (simp add: proj_append)
next
  case (Refused chat0 evs0 chat evs1 err)
  then show ?thesis
    using resolveChat_events [of ent uc input] appendUserMessage_events [of ent input chat0]
    by (simp add: proj_append)
next
  case (Aborted chat0 evs0 chat evs1 resp evs2)
  then have "received log = received evs2"
    using resolveChat_events [of ent uc input] appendUserMessage_events [of ent input chat0]
    by (simp_all add: proj_append)
  with drain_panic [OF Aborted(4)] show ?thesis by simp
next
  case (Drained chat0 evs0 chat evs1 resp fullResponse evs2 evs3)
  then have "received log = received evs2"
    using resolveChat_events [of ent uc input] appendUserMessage_events [of ent input chat0]
      finishRound_events [of ent uc input chat fullResponse]
    by (simp_all add: proj_append)
  with drain_panic [OF Drained(4)] finishRound_outcome [OF Drained(5)] show ?thesis by simp
qed

theorem panic_iff_empty_choices_witness:
  "Execute plainEntity noChoiceUseCase helloInput 4 =
     (Panicked, helloPrefix @ [EvRecv (RecvOk \<lparr>Choices = []\<rparr>)])
   \<and> map Choices (received (helloPrefix @ [EvRecv (RecvOk \<lparr>Choices = []\<rparr>)])) =
       [[\<lparr>Delta = \<lparr>ChatCompletionStreamChoiceDelta.Content = ''He''\<rparr>\<rparr>], []]
   \<and> (Panicked = Panicked) =
       (\<exists>r\<in>set (received (helloPrefix @ [EvRecv (RecvOk \<lparr>Choices = []\<rparr>)])). Choices r = [])"
proof -
  have rcv: "map Choices (received (helloPrefix @ [EvRecv (RecvOk \<lparr>Choices = []\<rparr>)])) =
       [[\<lparr>Delta = \<lparr>ChatCompletionStreamChoiceDelta.Content = ''He''\<rparr>\<rparr>], []]"
    by (simp add: helloPrefix_def fragment_def received_append)
  from panic_iff_empty_choices [OF noChoice_run] noChoice_run rcv show ?thesis by blast
qed

end
